theory Spec2Isabelle
  imports Complex_Main "HOL-Library.Word"
begin

unbundle bit_operations_syntax

section \<open>Exceptions, the outside world and the ports\<close>

text \<open>
  The Python exceptions that the code can raise by itself (\<open>ValidationError\<close> is
  pydantic's), and \<open>PortError\<close> for whatever an external library or client (Supabase,
  the embedding model, the LLM) raises.
\<close>

datatype error =
  ValueError | KeyError string | TypeError | AttributeError | ValidationError | PortError string

datatype message = SystemMessage string | HumanMessage string | AIMessage string

text \<open>A JSON value as Python holds it after decoding; an object is a dict, kept as an association list.\<close>

datatype json =
    JNull
  | JBool bool
  | JNum rat
  | JStr string
  | JArr "json list"
  | JObj "(string \<times> json) list"

text \<open>
  A row of \<open>match_documents\<close>: a dict in which the keys \<open>content\<close> and
  \<open>metadata\<close> may be absent (\<open>None\<close> is an absent key). The metadata column is JSON:
  an object as the ingestion writes it (\<open>source\<close>, \<open>page\<close>, ...), but any JSON value,
  \<open>null\<close> included, can come back.
\<close>

record doc_row =
  doc_content :: "string option"
  doc_metadata :: "json option"

text \<open>A row of \<open>match_chat_history\<close>; again \<open>None\<close> is an absent key.\<close>

record hist_row =
  row_message_type :: "string option"
  row_content :: "string option"

text \<open>The dict handed to \<open>table("chat_history").insert\<close>; \<open>'v\<close> is the embedding vector.\<close>

record 'v hist_entry =
  entry_conversation_id :: string
  entry_message_type :: string
  entry_content :: string
  entry_embedding :: 'v

datatype 'v call =
    EmbedQuery string
  | RpcMatchDocuments 'v nat
  | RpcMatchChatHistory 'v string nat
  | TableInsert "'v hist_entry"
  | LlmInvoke "message list"

text \<open>
  The world a request runs in: the rows of the \<open>chat_history\<close> table and the log of
  every call made to an external client, oldest first.
\<close>

record 'v world =
  chat_history :: "'v hist_entry list"
  calls :: "'v call list"

text \<open>
  The module-level clients of \<open>app.core.config\<close>. Each may raise. The value of a
  response is its \<open>.data\<close> attribute, which is \<open>None\<close> or a list of rows.
  \<open>urandom16\<close> is the 16 random bytes that \<open>uuid4()\<close> draws.
\<close>

record 'v ports =
  embed_query :: "string \<Rightarrow> error + 'v"
  rpc_match_documents :: "'v \<Rightarrow> nat \<Rightarrow> error + doc_row list option"
  rpc_match_chat_history ::
    "'v hist_entry list \<Rightarrow> 'v \<Rightarrow> string \<Rightarrow> nat \<Rightarrow> error + hist_row list option"
  insert_error :: "'v hist_entry list \<Rightarrow> 'v hist_entry \<Rightarrow> error option"
  llm :: "message list \<Rightarrow> error + string"
  urandom16 :: "128 word"

type_synonym ('a, 'v) prog = "'v world \<Rightarrow> (error + 'a) \<times> 'v world"

definition ret :: "'a \<Rightarrow> ('a, 'v) prog" where
  "ret a = (\<lambda>w. (Inr a, w))"

definition lift :: "error + 'a \<Rightarrow> ('a, 'v) prog" where
  "lift r = (\<lambda>w. (r, w))"

definition then_do :: "('a, 'v) prog \<Rightarrow> ('a \<Rightarrow> ('b, 'v) prog) \<Rightarrow> ('b, 'v) prog" where
  "then_do m f = (\<lambda>w. case m w of (Inl e, w') \<Rightarrow> (Inl e, w') | (Inr a, w') \<Rightarrow> f a w')"

definition logged :: "'v call \<Rightarrow> 'v world \<Rightarrow> 'v world" where
  "logged c w = w\<lparr>calls := calls w @ [c]\<rparr>"

definition call_embed :: "'v ports \<Rightarrow> string \<Rightarrow> ('v, 'v) prog" where
  "call_embed P text = (\<lambda>w. (embed_query P text, logged (EmbedQuery text) w))"

definition call_match_documents ::
  "'v ports \<Rightarrow> 'v \<Rightarrow> nat \<Rightarrow> (doc_row list option, 'v) prog" where
  "call_match_documents P v n =
     (\<lambda>w. (rpc_match_documents P v n, logged (RpcMatchDocuments v n) w))"

definition call_match_chat_history ::
  "'v ports \<Rightarrow> 'v \<Rightarrow> string \<Rightarrow> nat \<Rightarrow> (hist_row list option, 'v) prog" where
  "call_match_chat_history P v sid n =
     (\<lambda>w. (rpc_match_chat_history P (chat_history w) v sid n,
            logged (RpcMatchChatHistory v sid n) w))"

definition call_insert :: "'v ports \<Rightarrow> 'v hist_entry \<Rightarrow> (unit, 'v) prog" where
  "call_insert P e =
     (\<lambda>w. case insert_error P (chat_history w) e of
             Some err \<Rightarrow> (Inl err, logged (TableInsert e) w)
           | None \<Rightarrow> (Inr (), (logged (TableInsert e) w)\<lparr>chat_history := chat_history w @ [e]\<rparr>))"

definition call_llm :: "'v ports \<Rightarrow> message list \<Rightarrow> (string, 'v) prog" where
  "call_llm P msgs = (\<lambda>w. (llm P msgs, logged (LlmInvoke msgs) w))"

section \<open>app/core/config.py\<close>

text \<open>
  The three constructors that the module calls after its check, each of which may raise:
  \<open>create_client(url, key)\<close>, \<open>HuggingFaceEmbeddings(model_name)\<close> and
  \<open>ChatGoogleGenerativeAI(model, google_api_key, temperature)\<close>.
\<close>

record ('c, 'e, 'l) constructors =
  create_client :: "string \<Rightarrow> string \<Rightarrow> error + 'c"
  HuggingFaceEmbeddings :: "string \<Rightarrow> error + 'e"
  ChatGoogleGenerativeAI :: "string \<Rightarrow> string \<Rightarrow> rat \<Rightarrow> error + 'l"

text \<open>The names that the module binds once it has been imported.\<close>

record ('c, 'e, 'l) settings =
  SUPABASE_URL :: string
  SUPABASE_KEY :: string
  GOOGLE_API_KEY :: string
  LLM_MODEL_NAME :: string
  EMBEDDING_MODEL_NAME :: string
  supabase_client :: 'c
  embeddings_model :: 'e
  llm_client :: 'l

text \<open>Python's \<open>not x\<close> for an optional string: true of \<open>None\<close> and of the empty string.\<close>

definition py_not :: "string option \<Rightarrow> bool" where
  "py_not x = (case x of None \<Rightarrow> True | Some s \<Rightarrow> s = [])"

definition getenv_default :: "(string \<rightharpoonup> string) \<Rightarrow> string \<Rightarrow> string \<Rightarrow> string" where
  "getenv_default env k d = (case env k of None \<Rightarrow> d | Some v \<Rightarrow> v)"

text \<open>
  Importing the module, in the environment \<open>env\<close> as \<open>load_dotenv()\<close> left it: the
  check of the credentials, then the three clients in the order of the file. The
  temperature 0.3 is kept as the rational 3/10.
\<close>

definition load_config ::
  "('c, 'e, 'l) constructors \<Rightarrow> (string \<rightharpoonup> string) \<Rightarrow> error + ('c, 'e, 'l) settings" where
  "load_config K env =
     (let url = env ''SUPABASE_URL'';
          key = env ''SUPABASE_ANON_KEY'';
          google = env ''GOOGLE_API_KEY'';
          model = getenv_default env ''LLM_MODEL'' ''gemini-1.5-flash'';
          embedding_model = ''all-MiniLM-L6-v2''
      in if py_not url \<or> py_not key \<or> py_not google then Inl ValueError
         else
           (case create_client K (the url) (the key) of
              Inl e \<Rightarrow> Inl e
            | Inr client \<Rightarrow>
                (case HuggingFaceEmbeddings K embedding_model of
                   Inl e \<Rightarrow> Inl e
                 | Inr embeddings \<Rightarrow>
                     (case ChatGoogleGenerativeAI K model (the google) (3 / 10) of
                        Inl e \<Rightarrow> Inl e
                      | Inr chat \<Rightarrow>
                          Inr \<lparr>SUPABASE_URL = the url, SUPABASE_KEY = the key,
                               GOOGLE_API_KEY = the google, LLM_MODEL_NAME = model,
                               EMBEDDING_MODEL_NAME = embedding_model,
                               supabase_client = client, embeddings_model = embeddings,
                               llm_client = chat\<rparr>))))"

section \<open>app/services/rag_service.py\<close>

definition contextualize_q_system_prompt :: string where
  "contextualize_q_system_prompt =
     ''Given a chat history and the latest user question '' @
     ''which might reference context in the chat history, '' @
     ''formulate a standalone question which can be understood '' @
     ''without the chat history. Do NOT answer the question, '' @
     ''just reformulate it if needed and otherwise return it as is.''"

definition contextualize_q_prompt :: "string \<Rightarrow> message list \<Rightarrow> message list" where
  "contextualize_q_prompt input history =
     [SystemMessage contextualize_q_system_prompt] @ history @ [HumanMessage input]"

definition newline2 :: string where
  "newline2 = [CHR 0x0A, CHR 0x0A]"

definition qa_system_prompt :: "string \<Rightarrow> string" where
  "qa_system_prompt context =
     ''You are an assistant for question-answering tasks. '' @
     ''Use the following pieces of retrieved context to answer '' @
     ''the question. If you don'' @ [CHR 0x27] @ ''t know the answer, just say '' @
     ''that you don'' @ [CHR 0x27] @ ''t know. Use three sentences maximum and keep '' @
     ''the answer concise.'' @ newline2 @ context"

definition qa_prompt :: "string \<Rightarrow> message list \<Rightarrow> string \<Rightarrow> message list" where
  "qa_prompt context history input =
     [SystemMessage (qa_system_prompt context)] @ history @ [HumanMessage input]"

definition get_retrieved_documents :: "'v ports \<Rightarrow> string \<Rightarrow> (doc_row list option, 'v) prog" where
  "get_retrieved_documents P question =
     then_do (call_embed P question) (\<lambda>question_embedding.
       call_match_documents P question_embedding 5)"

text \<open>Python's truth value of \<open>response.data\<close>: false for \<open>None\<close> and for the empty list.\<close>

definition truthy :: "'a list option \<Rightarrow> bool" where
  "truthy d = (case d of None \<Rightarrow> False | Some rows \<Rightarrow> rows \<noteq> [])"

text \<open>The loop of \<open>get_relevant_history\<close> over the rows, appending to \<open>recalled_messages\<close>.\<close>

fun recall_rows :: "hist_row list \<Rightarrow> message list \<Rightarrow> error + message list" where
  "recall_rows [] recalled_messages = Inr recalled_messages"
| "recall_rows (doc # docs) recalled_messages =
     (case row_message_type doc of
        None \<Rightarrow> Inl (KeyError ''message_type'')
      | Some t \<Rightarrow>
          if t = ''human'' then
            (case row_content doc of
               None \<Rightarrow> Inl (KeyError ''content'')
             | Some c \<Rightarrow> recall_rows docs (recalled_messages @ [HumanMessage c]))
          else if t = ''ai'' then
            (case row_content doc of
               None \<Rightarrow> Inl (KeyError ''content'')
             | Some c \<Rightarrow> recall_rows docs (recalled_messages @ [AIMessage c]))
          else recall_rows docs recalled_messages)"

definition get_relevant_history :: "'v ports \<Rightarrow> string \<Rightarrow> string \<Rightarrow> (message list, 'v) prog" where
  "get_relevant_history P session_id question =
     then_do (call_embed P question) (\<lambda>question_embedding.
     then_do (call_match_chat_history P question_embedding session_id 4) (\<lambda>data.
       lift (if truthy data then recall_rows (the data) [] else Inr [])))"

definition add_message_to_history ::
  "'v ports \<Rightarrow> string \<Rightarrow> string \<Rightarrow> string \<Rightarrow> (unit, 'v) prog" where
  "add_message_to_history P session_id message_type content =
     then_do (call_embed P content) (\<lambda>content_embedding.
       call_insert P \<lparr>entry_conversation_id = session_id, entry_message_type = message_type,
                      entry_content = content, entry_embedding = content_embedding\<rparr>)"

definition history_aware_rephraser ::
  "'v ports \<Rightarrow> string \<Rightarrow> message list \<Rightarrow> (string, 'v) prog" where
  "history_aware_rephraser P input history = call_llm P (contextualize_q_prompt input history)"

text \<open>Python's \<open>sep.join(parts)\<close>.\<close>

fun join :: "string \<Rightarrow> string list \<Rightarrow> string" where
  "join sep [] = []"
| "join sep [x] = x"
| "join sep (x # y # ys) = x @ sep @ join sep (y # ys)"

text \<open>
  The last lambda of the \<open>context\<close> branch of \<open>rag_chain\<close>: iterating \<open>response.data\<close>
  raises TypeError when it is \<open>None\<close>.
\<close>

definition join_contents :: "doc_row list option \<Rightarrow> error + string" where
  "join_contents data =
     (case data of
        None \<Rightarrow> Inl TypeError
      | Some rows \<Rightarrow>
          Inr (join newline2 (map (\<lambda>doc. the (doc_content doc))
                                 (filter (\<lambda>doc. doc_content doc \<noteq> None) rows))))"

definition rag_chain :: "'v ports \<Rightarrow> string \<Rightarrow> message list \<Rightarrow> (string, 'v) prog" where
  "rag_chain P input history =
     then_do (history_aware_rephraser P input history) (\<lambda>query.
     then_do (get_retrieved_documents P query) (\<lambda>response.
     then_do (lift (join_contents response)) (\<lambda>context.
       call_llm P (qa_prompt context history input))))"

section \<open>app/models/api_models.py and the UUIDs of the standard library\<close>

type_synonym uuid = "128 word"

text \<open>
  \<open>uuid4()\<close> is \<open>UUID(bytes=os.urandom(16), version=4)\<close>: the constructor clears and
  sets the variant bits (\<open>0x8000 << 48\<close>) and the version bits (\<open>4 << 76\<close>).
\<close>

definition uuid4 :: "128 word \<Rightarrow> uuid" where
  "uuid4 r =
     (((r AND NOT (push_bit 48 0xc000)) OR push_bit 48 0x8000)
         AND NOT (push_bit 64 0xf000)) OR push_bit 76 4"

definition hex_digit :: "nat \<Rightarrow> char" where
  "hex_digit n = ''0123456789abcdef'' ! (n mod 16)"

text \<open>\<open>'%032x' % self.int\<close>: the 32 hexadecimal digits, most significant first.\<close>

definition hex32 :: "uuid \<Rightarrow> string" where
  "hex32 u = map (\<lambda>i. hex_digit (unat (drop_bit (4 * (31 - i)) u AND 15))) [0..<32]"

text \<open>\<open>str(uuid)\<close>: the digits grouped 8-4-4-4-12.\<close>

definition str_uuid :: "uuid \<Rightarrow> string" where
  "str_uuid u =
     (let h = hex32 u
      in take 8 h @ ''-'' @ take 4 (drop 8 h) @ ''-'' @ take 4 (drop 12 h) @ ''-'' @
         take 4 (drop 16 h) @ ''-'' @ drop 20 h)"

record QueryRequest =
  question :: string
  req_conversation_id :: "uuid option"

record QueryResponse =
  answer :: string
  sources :: "string list"
  conversation_id :: uuid

fun is_str :: "json \<Rightarrow> bool" where
  "is_str (JStr s) = True"
| "is_str v = False"

fun text_of :: "json \<Rightarrow> string" where
  "text_of (JStr s) = s"
| "text_of v = []"

text \<open>
  \<open>QueryResponse(answer=..., sources=..., conversation_id=...)\<close>: pydantic (version 2)
  takes only a \<open>str\<close> for an element of \<open>List[str]\<close> and raises ValidationError
  otherwise. The answer and the id have their types already.
\<close>

definition make_QueryResponse :: "string \<Rightarrow> json list \<Rightarrow> uuid \<Rightarrow> error + QueryResponse" where
  "make_QueryResponse a srcs c =
     (if list_all is_str srcs
      then Inr \<lparr>answer = a, sources = map text_of srcs, conversation_id = c\<rparr>
      else Inl ValidationError)"

section \<open>app/main.py\<close>

text \<open>\<open>d.get(key, default)\<close> on a dict kept as an association list.\<close>

definition dict_get :: "(string \<times> 'a) list \<Rightarrow> string \<Rightarrow> 'a \<Rightarrow> 'a" where
  "dict_get d k dflt = (case map_of d k of None \<Rightarrow> dflt | Some v \<Rightarrow> v)"

text \<open>\<open>x.get(key, default)\<close> on a decoded JSON value: only a dict has the method.\<close>

definition py_get :: "json \<Rightarrow> string \<Rightarrow> json \<Rightarrow> error + json" where
  "py_get x k dflt = (case x of JObj d \<Rightarrow> Inr (dict_get d k dflt) | _ \<Rightarrow> Inl AttributeError)"

text \<open>
  \<open>doc["metadata"].get("source", dflt)\<close>: the subscript raises KeyError on a row without
  the key \<open>metadata\<close>, the method call AttributeError on a metadata that is no dict.
\<close>

definition row_source :: "json \<Rightarrow> doc_row \<Rightarrow> error + json" where
  "row_source dflt doc =
     (case doc_metadata doc of
        None \<Rightarrow> Inl (KeyError ''metadata'')
      | Some md \<Rightarrow> py_get md ''source'' dflt)"

text \<open>A list comprehension \<open>[f(x) for x in xs]\<close>: the first element that raises ends it.\<close>

fun for_each :: "('a \<Rightarrow> error + 'b) \<Rightarrow> 'a list \<Rightarrow> error + 'b list" where
  "for_each f [] = Inr []"
| "for_each f (x # xs) =
     (case f x of
        Inl e \<Rightarrow> Inl e
      | Inr y \<Rightarrow> (case for_each f xs of Inl e \<Rightarrow> Inl e | Inr ys \<Rightarrow> Inr (y # ys)))"

text \<open>Lists and dicts cannot be hashed.\<close>

fun hashable :: "json \<Rightarrow> bool" where
  "hashable (JArr xs) = False"
| "hashable (JObj d) = False"
| "hashable v = True"

text \<open>
  \<open>list(set(xs))\<close>: TypeError on an element that cannot be hashed, else the distinct
  elements of \<open>xs\<close>. Python leaves their order open; the model fixes one. (Python also
  takes \<open>True\<close> and \<open>1\<close> for one element; neither is a \<open>str\<close>.)
\<close>

definition list_of_set :: "json list \<Rightarrow> error + json list" where
  "list_of_set xs = (if list_all hashable xs then Inr (remdups xs) else Inl TypeError)"

definition response_sources :: "doc_row list option \<Rightarrow> error + json list" where
  "response_sources data =
     (if truthy data then
        (case for_each (row_source (JStr ''Unknown'')) (the data) of
           Inl e \<Rightarrow> Inl e
         | Inr xs \<Rightarrow> list_of_set xs)
      else Inr [])"

definition resolve_conversation_id :: "'v ports \<Rightarrow> QueryRequest \<Rightarrow> uuid" where
  "resolve_conversation_id P request =
     (case req_conversation_id request of Some c \<Rightarrow> c | None \<Rightarrow> uuid4 (urandom16 P))"

definition query_rag_endpoint :: "'v ports \<Rightarrow> QueryRequest \<Rightarrow> (QueryResponse, 'v) prog" where
  "query_rag_endpoint P request =
     (let conversation_id = resolve_conversation_id P request;
          session_id_str = str_uuid conversation_id
      in then_do (get_relevant_history P session_id_str (question request)) (\<lambda>recalled_history.
         then_do (rag_chain P (question request) recalled_history) (\<lambda>answer.
         then_do (add_message_to_history P session_id_str ''human'' (question request)) (\<lambda>_.
         then_do (add_message_to_history P session_id_str ''ai'' answer) (\<lambda>_.
         then_do (get_retrieved_documents P (question request)) (\<lambda>match_response.
         then_do (lift (response_sources match_response)) (\<lambda>sources.
           lift (make_QueryResponse answer sources conversation_id))))))))"

text \<open>\<open>os.path.basename\<close> (POSIX): what follows the last slash.\<close>

definition basename :: "string \<Rightarrow> string" where
  "basename p = rev (takeWhile (\<lambda>c. c \<noteq> CHR ''/'') (rev p))"

record eval_query =
  eq_question :: string
  eq_expected_sources :: "string list"

definition eval_queries :: "eval_query list" where
  "eval_queries =
    [\<lparr>eq_question = ''How do I initialize the Supabase client in Python?'',
      eq_expected_sources = [''Client_Initialization_and_Setup.pdf'', ''Supabase_Python_Introduction.pdf'']\<rparr>,
     \<lparr>eq_question = ''What are the authentication methods supported by Supabase?'',
      eq_expected_sources = [''Authentication_Methods.pdf'']\<rparr>,
     \<lparr>eq_question = ''How can I perform CRUD operations on the database?'',
      eq_expected_sources = [''Database_Operations.pdf'']\<rparr>,
     \<lparr>eq_question = ''What are Supabase Edge Functions?'',
      eq_expected_sources = [''Edge_Functions_and_API_Integration.pdf'']\<rparr>,
     \<lparr>eq_question = ''How does Supabase handle real-time subscriptions?'',
      eq_expected_sources = [''Real-time_Subscriptions.pdf'']\<rparr>,
     \<lparr>eq_question = ''What are security best practices for Supabase?'',
      eq_expected_sources = [''Error_Handling_and_Security.pdf'']\<rparr>,
     \<lparr>eq_question = ''How do I upload files to Supabase storage?'',
      eq_expected_sources = [''Storage_Management.pdf'']\<rparr>,
     \<lparr>eq_question = ''What is the purpose of the .env file?'',
      eq_expected_sources = [''Client_Initialization_and_Setup.pdf'']\<rparr>,
     \<lparr>eq_question = ''Can Supabase handle database relationships?'',
      eq_expected_sources = [''Database_Operations.pdf'']\<rparr>,
     \<lparr>eq_question = ''What is the embedding dimension for all-MiniLM-L6-v2?'',
      eq_expected_sources = []\<rparr>]"

text \<open>
  One entry of \<open>query_results\<close>. Python's float division is taken as exact, over the
  rationals.
\<close>

record eval_result =
  query_id :: nat
  res_question :: string
  expected_sources :: "string list"
  retrieved_sources :: "string list"
  precision_at_k :: rat

record eval_report =
  total_queries :: nat
  k_value :: nat
  overall_average_precision_at_k :: rat
  query_results :: "eval_result list"

text \<open>\<open>os.path.basename(p)\<close> on a decoded JSON value: TypeError unless it is a \<open>str\<close>.\<close>

definition py_basename :: "json \<Rightarrow> error + string" where
  "py_basename p = (case p of JStr s \<Rightarrow> Inr (basename s) | _ \<Rightarrow> Inl TypeError)"

definition row_basename :: "doc_row \<Rightarrow> error + string" where
  "row_basename doc =
     (case row_source (JStr []) doc of Inl e \<Rightarrow> Inl e | Inr p \<Rightarrow> py_basename p)"

definition eval_retrieved_sources :: "doc_row list option \<Rightarrow> error + string list" where
  "eval_retrieved_sources data =
     (if truthy data then for_each row_basename (the data) else Inr [])"

text \<open>\<open>sum(1 for source in retrieved_sources if source in expected_sources)\<close>\<close>

definition num_relevant :: "string list \<Rightarrow> string list \<Rightarrow> nat" where
  "num_relevant retrieved expected = length (filter (\<lambda>source. source \<in> set expected) retrieved)"

text \<open>The body of the \<open>for i, query_data in enumerate(eval_queries)\<close> loop, from index \<open>i\<close> on.\<close>

fun eval_loop ::
  "'v ports \<Rightarrow> nat \<Rightarrow> nat \<Rightarrow> eval_query list \<Rightarrow> eval_result list \<Rightarrow> (eval_result list, 'v) prog"
where
  "eval_loop P k i [] eval_results = ret eval_results"
| "eval_loop P k i (query_data # rest) eval_results =
     then_do (get_retrieved_documents P (eq_question query_data)) (\<lambda>match_response.
     then_do (lift (eval_retrieved_sources match_response)) (\<lambda>retrieved.
       let num_relevant_retrieved = num_relevant retrieved (eq_expected_sources query_data);
           precision = (if k > 0 then of_nat num_relevant_retrieved / of_nat k else 0)
       in eval_loop P k (i + 1) rest
            (eval_results @
             [\<lparr>query_id = i + 1, res_question = eq_question query_data,
               expected_sources = eq_expected_sources query_data,
               retrieved_sources = retrieved, precision_at_k = precision\<rparr>])))"

definition overall_precision :: "eval_result list \<Rightarrow> rat" where
  "overall_precision eval_results =
     (if eval_results \<noteq> [] then sum_list (map precision_at_k eval_results) / of_nat (length eval_results)
      else 0)"

definition evaluate_rag :: "'v ports \<Rightarrow> (eval_report, 'v) prog" where
  "evaluate_rag P =
     then_do (eval_loop P 3 0 eval_queries []) (\<lambda>eval_results.
       ret \<lparr>total_queries = length eval_queries, k_value = 3,
            overall_average_precision_at_k = overall_precision eval_results,
            query_results = eval_results\<rparr>)"

section \<open>Reading the results\<close>

text \<open>The rows of a response: none when \<open>.data\<close> is \<open>None\<close>.\<close>

definition data_rows :: "'a list option \<Rightarrow> 'a list" where
  "data_rows d = (case d of None \<Rightarrow> [] | Some rows \<Rightarrow> rows)"

text \<open>
  A row whose metadata is a dict in which \<open>source\<close> is absent or a text, and the source
  of such a row, \<open>dflt\<close> when absent.
\<close>

definition has_text_source :: "doc_row \<Rightarrow> bool" where
  "has_text_source doc =
     (case doc_metadata doc of
        Some (JObj d) \<Rightarrow> (case map_of d ''source'' of None \<Rightarrow> True | Some v \<Rightarrow> is_str v)
      | _ \<Rightarrow> False)"

definition source_text :: "string \<Rightarrow> doc_row \<Rightarrow> string" where
  "source_text dflt doc =
     (case doc_metadata doc of
        Some (JObj d) \<Rightarrow> (case map_of d ''source'' of None \<Rightarrow> dflt | Some v \<Rightarrow> text_of v)
      | _ \<Rightarrow> dflt)"

text \<open>The conversation ids that the calls to the History Store carry, in call order.\<close>

fun history_store_ids :: "'v call list \<Rightarrow> string list" where
  "history_store_ids [] = []"
| "history_store_ids (RpcMatchChatHistory v sid n # cs) = sid # history_store_ids cs"
| "history_store_ids (TableInsert e # cs) = entry_conversation_id e # history_store_ids cs"
| "history_store_ids (c # cs) = history_store_ids cs"


section \<open>Test doubles\<close>

text \<open>
  Stand-ins for the external clients, in the manner of the mocks of \<open>tests/\<close>: the
  embedding of a text is the text itself, the stores return fixed rows, the LLM a fixed
  answer.
\<close>

definition mock_documents :: "doc_row list" where
  "mock_documents =
     [\<lparr>doc_content = Some ''Supabase is an open-source Firebase alternative.'',
       doc_metadata = Some (JObj [(''source'', JStr ''doc1.pdf''), (''page'', JNum 0)])\<rparr>,
      \<lparr>doc_content = None, doc_metadata = Some (JObj [(''page'', JNum 3)])\<rparr>,
      \<lparr>doc_content = Some ''It provides a suite of tools including a Postgres database.'',
       doc_metadata = Some (JObj [(''source'', JStr ''doc2.pdf'')])\<rparr>,
      \<lparr>doc_content = Some ''Supabase offers authentication.'',
       doc_metadata = Some (JObj [(''source'', JStr ''doc1.pdf'')])\<rparr>]"

definition mock_history :: "hist_row list" where
  "mock_history =
     [\<lparr>row_message_type = Some ''human'', row_content = Some ''This was my previous question.''\<rparr>,
      \<lparr>row_message_type = Some ''system'', row_content = None\<rparr>,
      \<lparr>row_message_type = Some ''ai'', row_content = Some ''This was the AI answer.''\<rparr>]"

definition mock_ports :: "string ports" where
  "mock_ports =
     \<lparr>embed_query = (\<lambda>text. Inr text),
      rpc_match_documents = (\<lambda>v n. Inr (Some mock_documents)),
      rpc_match_chat_history = (\<lambda>table v sid n. Inr (Some mock_history)),
      insert_error = (\<lambda>table e. None),
      llm = (\<lambda>msgs. Inr ''It is a backend platform.''),
      urandom16 = 0\<rparr>"

text \<open>An LLM that returns the last human message unchanged.\<close>

definition echo_llm :: "message list \<Rightarrow> error + string" where
  "echo_llm msgs =
     (case rev msgs of HumanMessage s # _ \<Rightarrow> Inr s | _ \<Rightarrow> Inr [])"

definition echo_ports :: "string ports" where
  "echo_ports = mock_ports\<lparr>llm := echo_llm\<rparr>"

definition empty_world :: "string world" where
  "empty_world = \<lparr>chat_history = [], calls = []\<rparr>"

definition mock_request :: QueryRequest where
  "mock_request = \<lparr>question = ''What is Supabase?'', req_conversation_id = None\<rparr>"

definition mock_response :: QueryResponse where
  "mock_response =
     \<lparr>answer = ''It is a backend platform.'', sources = [''Unknown'', ''doc2.pdf'', ''doc1.pdf''],
      conversation_id = uuid4 0\<rparr>"

text \<open>
  A Document Store whose two best chunks come from the same PDF, except for the question
  about Edge Functions, for which it has a single chunk.
\<close>

definition dup_documents :: "doc_row list" where
  "dup_documents =
     [\<lparr>doc_content = Some ''Sign in with email and password.'',
       doc_metadata = Some (JObj [(''source'', JStr ''documents/Authentication_Methods.pdf'')])\<rparr>,
      \<lparr>doc_content = Some ''Sign in with a magic link.'',
       doc_metadata = Some (JObj [(''source'', JStr ''documents/Authentication_Methods.pdf'')])\<rparr>]"

definition edge_documents :: "doc_row list" where
  "edge_documents =
     [\<lparr>doc_content = Some ''Edge Functions run close to the user.'',
       doc_metadata =
         Some (JObj [(''source'', JStr ''documents/Edge_Functions_and_API_Integration.pdf'')])\<rparr>]"

definition dup_ports :: "string ports" where
  "dup_ports =
     mock_ports\<lparr>rpc_match_documents :=
       (\<lambda>v n. if v = ''What are Supabase Edge Functions?'' then Inr (Some edge_documents)
              else Inr (Some dup_documents))\<rparr>"

definition dup_result :: "nat \<Rightarrow> string \<Rightarrow> string list \<Rightarrow> rat \<Rightarrow> eval_result" where
  "dup_result i q expected p =
     \<lparr>query_id = i, res_question = q, expected_sources = expected,
      retrieved_sources = [''Authentication_Methods.pdf'', ''Authentication_Methods.pdf''],
      precision_at_k = p\<rparr>"

definition dup_report :: eval_report where
  "dup_report =
     \<lparr>total_queries = 10, k_value = 3, overall_average_precision_at_k = 1 / 10,
      query_results =
        [dup_result 1 ''How do I initialize the Supabase client in Python?''
           [''Client_Initialization_and_Setup.pdf'', ''Supabase_Python_Introduction.pdf''] 0,
         dup_result 2 ''What are the authentication methods supported by Supabase?''
           [''Authentication_Methods.pdf''] (2 / 3),
         dup_result 3 ''How can I perform CRUD operations on the database?''
           [''Database_Operations.pdf''] 0,
         \<lparr>query_id = 4, res_question = ''What are Supabase Edge Functions?'',
          expected_sources = [''Edge_Functions_and_API_Integration.pdf''],
          retrieved_sources = [''Edge_Functions_and_API_Integration.pdf''],
          precision_at_k = 1 / 3\<rparr>,
         dup_result 5 ''How does Supabase handle real-time subscriptions?''
           [''Real-time_Subscriptions.pdf''] 0,
         dup_result 6 ''What are security best practices for Supabase?''
           [''Error_Handling_and_Security.pdf''] 0,
         dup_result 7 ''How do I upload files to Supabase storage?''
           [''Storage_Management.pdf''] 0,
         dup_result 8 ''What is the purpose of the .env file?''
           [''Client_Initialization_and_Setup.pdf''] 0,
         dup_result 9 ''Can Supabase handle database relationships?''
           [''Database_Operations.pdf''] 0,
         dup_result 10 ''What is the embedding dimension for all-MiniLM-L6-v2?'' [] 0]\<rparr>"

text \<open>A Document Store that returns a row without the key \<open>metadata\<close>.\<close>

definition bare_documents :: "doc_row list" where
  "bare_documents =
     [\<lparr>doc_content = Some ''Supabase is an open-source Firebase alternative.'',
       doc_metadata = None\<rparr>]"

definition bare_ports :: "string ports" where
  "bare_ports = mock_ports\<lparr>rpc_match_documents := (\<lambda>v n. Inr (Some bare_documents))\<rparr>"

text \<open>
  Constructors that return what they were given; \<open>create_client\<close> refuses a URL that
  does not start with \<open>http\<close>, as the Supabase library does.
\<close>

definition mock_constructors :: "(string \<times> string, string, string \<times> string \<times> rat) constructors" where
  "mock_constructors =
     \<lparr>create_client =
        (\<lambda>url key. if take 4 url = ''http'' then Inr (url, key) else Inl (PortError ''Invalid URL'')),
      HuggingFaceEmbeddings = (\<lambda>model_name. Inr model_name),
      ChatGoogleGenerativeAI = (\<lambda>model key temperature. Inr (model, key, temperature))\<rparr>"

text \<open>
  Three environments: one without \<open>LLM_MODEL\<close>, one without \<open>GOOGLE_API_KEY\<close>, one
  whose \<open>SUPABASE_URL\<close> is a blank.
\<close>

definition env_without_model :: "string \<rightharpoonup> string" where
  "env_without_model =
     [''SUPABASE_URL'' \<mapsto> ''https://project.supabase.co'', ''SUPABASE_ANON_KEY'' \<mapsto> ''anon.key.sig'',
      ''GOOGLE_API_KEY'' \<mapsto> ''google-key'']"

definition env_without_google_key :: "string \<rightharpoonup> string" where
  "env_without_google_key =
     [''SUPABASE_URL'' \<mapsto> ''https://project.supabase.co'', ''SUPABASE_ANON_KEY'' \<mapsto> ''anon.key.sig'',
      ''LLM_MODEL'' \<mapsto> ''gemini-1.5-pro'']"

definition env_blank_url :: "string \<rightharpoonup> string" where
  "env_blank_url =
     [''SUPABASE_URL'' \<mapsto> '' '', ''SUPABASE_ANON_KEY'' \<mapsto> ''anon.key.sig'',
      ''GOOGLE_API_KEY'' \<mapsto> ''google-key'']"

section \<open>Configuration\<close>

text \<open>
  C9, as stated: a missing LLM model name makes configuration loading fail. It does not:
  with the three credentials set and \<open>LLM_MODEL\<close> unset, and client constructors that
  accept them, loading succeeds and the LLM client is built for the default model name.
\<close>

theorem load_config_missing_model_counterexample:
  "env_without_model ''LLM_MODEL'' = None \<and>
   load_config mock_constructors env_without_model =
     Inr \<lparr>SUPABASE_URL = ''https://project.supabase.co'', SUPABASE_KEY = ''anon.key.sig'',
          GOOGLE_API_KEY = ''google-key'', LLM_MODEL_NAME = ''gemini-1.5-flash'',
          EMBEDDING_MODEL_NAME = ''all-MiniLM-L6-v2'',
          supabase_client = (''https://project.supabase.co'', ''anon.key.sig''),
          embeddings_model = ''all-MiniLM-L6-v2'',
          llm_client = (''gemini-1.5-flash'', ''google-key'', 3 / 10)\<rparr>"
  by (simp add: env_without_model_def load_config_def py_not_def getenv_default_def
      mock_constructors_def Let_def)

text \<open>
  C9, amended: if one of the three credentials (Supabase URL, Supabase key, Google API
  key) is unset or empty, loading raises ValueError, whatever the client constructors
  would do. If the three are set and the three constructors return, loading succeeds,
  whether or not a model name is set: an unset model name becomes \<open>gemini-1.5-flash\<close>,
  and that name is what the LLM client is built with.
\<close>

theorem load_config_credentials:
  "((\<exists>k \<in> {''SUPABASE_URL'', ''SUPABASE_ANON_KEY'', ''GOOGLE_API_KEY''}.
        env k = None \<or> env k = Some []) \<longrightarrow> load_config K env = Inl ValueError) \<and>
   ((\<forall>k \<in> {''SUPABASE_URL'', ''SUPABASE_ANON_KEY'', ''GOOGLE_API_KEY''}.
        env k \<noteq> None \<and> env k \<noteq> Some []) \<and>
    create_client K (the (env ''SUPABASE_URL'')) (the (env ''SUPABASE_ANON_KEY'')) = Inr client \<and>
    HuggingFaceEmbeddings K ''all-MiniLM-L6-v2'' = Inr embeddings \<and>
    ChatGoogleGenerativeAI K (case env ''LLM_MODEL'' of None \<Rightarrow> ''gemini-1.5-flash'' | Some m \<Rightarrow> m)
      (the (env ''GOOGLE_API_KEY'')) (3 / 10) = Inr chat \<longrightarrow>
      load_config K env =
        Inr \<lparr>SUPABASE_URL = the (env ''SUPABASE_URL''), SUPABASE_KEY = the (env ''SUPABASE_ANON_KEY''),
             GOOGLE_API_KEY = the (env ''GOOGLE_API_KEY''),
             LLM_MODEL_NAME = (case env ''LLM_MODEL'' of None \<Rightarrow> ''gemini-1.5-flash'' | Some m \<Rightarrow> m),
             EMBEDDING_MODEL_NAME = ''all-MiniLM-L6-v2'',
             supabase_client = client, embeddings_model = embeddings, llm_client = chat\<rparr>)"
proof (intro conjI impI)
  assume "\<exists>k \<in> {''SUPABASE_URL'', ''SUPABASE_ANON_KEY'', ''GOOGLE_API_KEY''}.
        env k = None \<or> env k = Some []"
  then show "load_config K env = Inl ValueError"
    by (auto simp: load_config_def py_not_def Let_def)
next
  assume ok: "(\<forall>k \<in> {''SUPABASE_URL'', ''SUPABASE_ANON_KEY'', ''GOOGLE_API_KEY''}.
        env k \<noteq> None \<and> env k \<noteq> Some []) \<and>
    create_client K (the (env ''SUPABASE_URL'')) (the (env ''SUPABASE_ANON_KEY'')) = Inr client \<and>
    HuggingFaceEmbeddings K ''all-MiniLM-L6-v2'' = Inr embeddings \<and>
    ChatGoogleGenerativeAI K (case env ''LLM_MODEL'' of None \<Rightarrow> ''gemini-1.5-flash'' | Some m \<Rightarrow> m)
      (the (env ''GOOGLE_API_KEY'')) (3 / 10) = Inr chat"
  then have "\<not> (py_not (env ''SUPABASE_URL'') \<or> py_not (env ''SUPABASE_ANON_KEY'') \<or>
      py_not (env ''GOOGLE_API_KEY''))"
    by (auto simp: py_not_def split: option.splits)
  with ok show "load_config K env =
        Inr \<lparr>SUPABASE_URL = the (env ''SUPABASE_URL''), SUPABASE_KEY = the (env ''SUPABASE_ANON_KEY''),
             GOOGLE_API_KEY = the (env ''GOOGLE_API_KEY''),
             LLM_MODEL_NAME = (case env ''LLM_MODEL'' of None \<Rightarrow> ''gemini-1.5-flash'' | Some m \<Rightarrow> m),
             EMBEDDING_MODEL_NAME = ''all-MiniLM-L6-v2'',
             supabase_client = client, embeddings_model = embeddings, llm_client = chat\<rparr>"
    by (simp add: load_config_def getenv_default_def Let_def)
qed

theorem load_config_credentials_witness:
  "load_config mock_constructors env_without_google_key = Inl ValueError \<and>
   LLM_MODEL_NAME (projr (load_config mock_constructors env_without_model)) = ''gemini-1.5-flash'' \<and>
   llm_client (projr (load_config mock_constructors env_without_model)) =
     (''gemini-1.5-flash'', ''google-key'', 3 / 10)"
proof -
  have missing: "\<exists>k \<in> {''SUPABASE_URL'', ''SUPABASE_ANON_KEY'', ''GOOGLE_API_KEY''}.
      env_without_google_key k = None \<or> env_without_google_key k = Some []"
    by (simp add: env_without_google_key_def)
  have present: "\<forall>k \<in> {''SUPABASE_URL'', ''SUPABASE_ANON_KEY'', ''GOOGLE_API_KEY''}.
      env_without_model k \<noteq> None \<and> env_without_model k \<noteq> Some []"
    by (simp add: env_without_model_def)
  have client: "create_client mock_constructors (the (env_without_model ''SUPABASE_URL''))
      (the (env_without_model ''SUPABASE_ANON_KEY'')) = Inr (''https://project.supabase.co'', ''anon.key.sig'')"
    by (simp add: env_without_model_def mock_constructors_def)
  have embeddings: "HuggingFaceEmbeddings mock_constructors ''all-MiniLM-L6-v2'' = Inr ''all-MiniLM-L6-v2''"
    by (simp add: mock_constructors_def)
  have chat: "ChatGoogleGenerativeAI mock_constructors
      (case env_without_model ''LLM_MODEL'' of None \<Rightarrow> ''gemini-1.5-flash'' | Some m \<Rightarrow> m)
      (the (env_without_model ''GOOGLE_API_KEY'')) (3 / 10) = Inr (''gemini-1.5-flash'', ''google-key'', 3 / 10)"
    by (simp add: env_without_model_def mock_constructors_def)
  have model: "env_without_model ''LLM_MODEL'' = None"
    by (simp add: env_without_model_def)
  from load_config_credentials [of env_without_google_key mock_constructors] missing
  have "load_config mock_constructors env_without_google_key = Inl ValueError" by blast
  moreover from load_config_credentials [of env_without_model mock_constructors
      "(''https://project.supabase.co'', ''anon.key.sig'')" "''all-MiniLM-L6-v2''"
      "(''gemini-1.5-flash'', ''google-key'', 3 / 10)"] present client embeddings chat
  have "load_config mock_constructors env_without_model =
        Inr \<lparr>SUPABASE_URL = the (env_without_model ''SUPABASE_URL''),
             SUPABASE_KEY = the (env_without_model ''SUPABASE_ANON_KEY''),
             GOOGLE_API_KEY = the (env_without_model ''GOOGLE_API_KEY''),
             LLM_MODEL_NAME = (case env_without_model ''LLM_MODEL'' of None \<Rightarrow> ''gemini-1.5-flash'' | Some m \<Rightarrow> m),
             EMBEDDING_MODEL_NAME = ''all-MiniLM-L6-v2'',
             supabase_client = (''https://project.supabase.co'', ''anon.key.sig''),
             embeddings_model = ''all-MiniLM-L6-v2'',
             llm_client = (''gemini-1.5-flash'', ''google-key'', 3 / 10)\<rparr>"
    by blast
  ultimately show ?thesis by (simp add: model)
qed

text \<open>
  With the credentials set, loading still fails when a client constructor raises: here
  \<open>create_client\<close> refuses a blank URL.
\<close>

lemma load_config_client_raises:
  "load_config mock_constructors env_blank_url = Inl (PortError ''Invalid URL'')"
  by (simp add: env_blank_url_def load_config_def py_not_def getenv_default_def mock_constructors_def
      Let_def)

section \<open>Successful runs\<close>

lemmas prog_defs = then_do_def ret_def lift_def logged_def call_embed_def call_match_documents_def
  call_match_chat_history_def call_insert_def call_llm_def

lemma then_do_Inr:
  "then_do m f w = (Inr b, w') \<longleftrightarrow> (\<exists>a w1. m w = (Inr a, w1) \<and> f a w1 = (Inr b, w'))"
  by (auto simp: then_do_def split: prod.splits sum.splits)

lemma lift_Inr: "lift r w = (Inr a, w') \<longleftrightarrow> r = Inr a \<and> w' = w"
  by (auto simp: lift_def)

lemma ret_Inr: "ret a w = (Inr b, w') \<longleftrightarrow> b = a \<and> w' = w"
  by (auto simp: ret_def)

lemma get_retrieved_documents_Inr:
  "get_retrieved_documents P q w = (Inr d, w') \<longleftrightarrow>
     (\<exists>v. embed_query P q = Inr v \<and> rpc_match_documents P v 5 = Inr d \<and>
          w' = w\<lparr>calls := calls w @ [EmbedQuery q, RpcMatchDocuments v 5]\<rparr>)"
  by (auto simp: get_retrieved_documents_def then_do_Inr call_embed_def call_match_documents_def logged_def)

lemma get_relevant_history_Inr:
  "get_relevant_history P sid q w = (Inr h, w') \<longleftrightarrow>
     (\<exists>v data. embed_query P q = Inr v \<and> rpc_match_chat_history P (chat_history w) v sid 4 = Inr data \<and>
          (if truthy data then recall_rows (the data) [] else Inr []) = Inr h \<and>
          w' = w\<lparr>calls := calls w @ [EmbedQuery q, RpcMatchChatHistory v sid 4]\<rparr>)"
  by (auto simp: get_relevant_history_def then_do_Inr call_embed_def call_match_chat_history_def logged_def lift_Inr)

lemma add_message_to_history_Inr:
  "add_message_to_history P sid t c w = (Inr u, w') \<longleftrightarrow>
     (\<exists>v. embed_query P c = Inr v \<and>
          insert_error P (chat_history w)
             \<lparr>entry_conversation_id = sid, entry_message_type = t, entry_content = c, entry_embedding = v\<rparr> = None \<and>
          w' = \<lparr>chat_history = chat_history w @
                  [\<lparr>entry_conversation_id = sid, entry_message_type = t, entry_content = c, entry_embedding = v\<rparr>],
                calls = calls w @ [EmbedQuery c,
                  TableInsert \<lparr>entry_conversation_id = sid, entry_message_type = t, entry_content = c, entry_embedding = v\<rparr>]\<rparr>)"
  by (auto simp: add_message_to_history_def then_do_Inr call_embed_def call_insert_def logged_def split: option.splits)

lemma rag_chain_Inr:
  "rag_chain P q h w = (Inr a, w') \<longleftrightarrow>
     (\<exists>query v docs context. llm P (contextualize_q_prompt q h) = Inr query \<and>
        embed_query P query = Inr v \<and> rpc_match_documents P v 5 = Inr docs \<and>
        join_contents docs = Inr context \<and> llm P (qa_prompt context h q) = Inr a \<and>
        w' = w\<lparr>calls := calls w @ [LlmInvoke (contextualize_q_prompt q h), EmbedQuery query,
                 RpcMatchDocuments v 5, LlmInvoke (qa_prompt context h q)]\<rparr>)"
  by (auto simp: rag_chain_def then_do_Inr history_aware_rephraser_def call_llm_def logged_def lift_Inr
        get_retrieved_documents_Inr)

lemma is_str_iff: "is_str v \<longleftrightarrow> (\<exists>s. v = JStr s)"
  by (cases v) simp_all

lemma map_JStr_text_of: "list_all is_str xs \<Longrightarrow> map (\<lambda>v. JStr (text_of v)) xs = xs"
  by (induction xs) (auto simp: is_str_iff)

lemma query_rag_endpoint_success:
  assumes "query_rag_endpoint P request w = (Inr resp, w')"
  obtains vq data recalled query v docs ctx va docs2 where
    "embed_query P (question request) = Inr vq"
    "rpc_match_chat_history P (chat_history w) vq (str_uuid (conversation_id resp)) 4 = Inr data"
    "(if truthy data then recall_rows (the data) [] else Inr []) = Inr recalled"
    "llm P (contextualize_q_prompt (question request) recalled) = Inr query"
    "embed_query P query = Inr v"
    "rpc_match_documents P v 5 = Inr docs"
    "join_contents docs = Inr ctx"
    "llm P (qa_prompt ctx recalled (question request)) = Inr (answer resp)"
    "embed_query P (answer resp) = Inr va"
    "rpc_match_documents P vq 5 = Inr docs2"
    "response_sources docs2 = Inr (map JStr (sources resp))"
    "conversation_id resp = resolve_conversation_id P request"
    "chat_history w' = chat_history w @
       [\<lparr>entry_conversation_id = str_uuid (conversation_id resp), entry_message_type = ''human'',
         entry_content = question request, entry_embedding = vq\<rparr>,
        \<lparr>entry_conversation_id = str_uuid (conversation_id resp), entry_message_type = ''ai'',
         entry_content = answer resp, entry_embedding = va\<rparr>]"
    "calls w' = calls w @
       [EmbedQuery (question request),
        RpcMatchChatHistory vq (str_uuid (conversation_id resp)) 4,
        LlmInvoke (contextualize_q_prompt (question request) recalled),
        EmbedQuery query,
        RpcMatchDocuments v 5,
        LlmInvoke (qa_prompt ctx recalled (question request)),
        EmbedQuery (question request),
        TableInsert \<lparr>entry_conversation_id = str_uuid (conversation_id resp), entry_message_type = ''human'',
         entry_content = question request, entry_embedding = vq\<rparr>,
        EmbedQuery (answer resp),
        TableInsert \<lparr>entry_conversation_id = str_uuid (conversation_id resp), entry_message_type = ''ai'',
         entry_content = answer resp, entry_embedding = va\<rparr>,
        EmbedQuery (question request),
        RpcMatchDocuments vq 5]"
proof -
  define cid where "cid = resolve_conversation_id P request"
  define sid where "sid = str_uuid cid"
  define q where "q = question request"
  from assms obtain recalled w1 ans w2 u3 w3 u4 w4 docs2 w5 srcs w6 where
    s1: "get_relevant_history P sid q w = (Inr recalled, w1)" and
    s2: "rag_chain P q recalled w1 = (Inr ans, w2)" and
    s3: "add_message_to_history P sid ''human'' q w2 = (Inr u3, w3)" and
    s4: "add_message_to_history P sid ''ai'' ans w3 = (Inr u4, w4)" and
    s5: "get_retrieved_documents P q w4 = (Inr docs2, w5)" and
    s6: "lift (response_sources docs2) w5 = (Inr srcs, w6)" and
    s7: "lift (make_QueryResponse ans srcs cid) w6 = (Inr resp, w')"
    unfolding query_rag_endpoint_def Let_def then_do_Inr cid_def sid_def q_def by blast
  from s7 have made: "make_QueryResponse ans srcs cid = Inr resp" and w': "w' = w6"
    by (simp_all add: lift_Inr)
  from made have resp: "resp = \<lparr>answer = ans, sources = map text_of srcs, conversation_id = cid\<rparr>"
    and strs: "list_all is_str srcs"
    by (auto simp: make_QueryResponse_def split: if_splits)
  from s6 have srcs: "response_sources docs2 = Inr srcs" and w6: "w6 = w5"
    by (simp_all add: lift_Inr)
  from s1 obtain vq data where
    e1: "embed_query P q = Inr vq" and
    h1: "rpc_match_chat_history P (chat_history w) vq sid 4 = Inr data" and
    r1: "(if truthy data then recall_rows (the data) [] else Inr []) = Inr recalled" and
    w1: "w1 = w\<lparr>calls := calls w @ [EmbedQuery q, RpcMatchChatHistory vq sid 4]\<rparr>"
    unfolding get_relevant_history_Inr by blast
  from s2 obtain query v docs ctx where
    l1: "llm P (contextualize_q_prompt q recalled) = Inr query" and
    e2: "embed_query P query = Inr v" and
    d1: "rpc_match_documents P v 5 = Inr docs" and
    j1: "join_contents docs = Inr ctx" and
    l2: "llm P (qa_prompt ctx recalled q) = Inr ans" and
    w2: "w2 = w1\<lparr>calls := calls w1 @ [LlmInvoke (contextualize_q_prompt q recalled), EmbedQuery query,
                 RpcMatchDocuments v 5, LlmInvoke (qa_prompt ctx recalled q)]\<rparr>"
    unfolding rag_chain_Inr by blast
  from s3 e1 have
    w3: "w3 = \<lparr>chat_history = chat_history w2 @
                  [\<lparr>entry_conversation_id = sid, entry_message_type = ''human'', entry_content = q, entry_embedding = vq\<rparr>],
                calls = calls w2 @ [EmbedQuery q,
                  TableInsert \<lparr>entry_conversation_id = sid, entry_message_type = ''human'', entry_content = q, entry_embedding = vq\<rparr>]\<rparr>"
    unfolding add_message_to_history_Inr by auto
  from s4 obtain va where
    e4: "embed_query P ans = Inr va" and
    w4: "w4 = \<lparr>chat_history = chat_history w3 @
                  [\<lparr>entry_conversation_id = sid, entry_message_type = ''ai'', entry_content = ans, entry_embedding = va\<rparr>],
                calls = calls w3 @ [EmbedQuery ans,
                  TableInsert \<lparr>entry_conversation_id = sid, entry_message_type = ''ai'', entry_content = ans, entry_embedding = va\<rparr>]\<rparr>"
    unfolding add_message_to_history_Inr by blast
  from s5 e1 have
    d2: "rpc_match_documents P vq 5 = Inr docs2" and
    w5: "w5 = w4\<lparr>calls := calls w4 @ [EmbedQuery q, RpcMatchDocuments vq 5]\<rparr>"
    unfolding get_retrieved_documents_Inr by auto
  have hist: "chat_history w' = chat_history w @
       [\<lparr>entry_conversation_id = sid, entry_message_type = ''human'', entry_content = q, entry_embedding = vq\<rparr>,
        \<lparr>entry_conversation_id = sid, entry_message_type = ''ai'', entry_content = ans, entry_embedding = va\<rparr>]"
    by (simp add: w' w6 w5 w4 w3 w2 w1)
  have log: "calls w' = calls w @
       [EmbedQuery q, RpcMatchChatHistory vq sid 4,
        LlmInvoke (contextualize_q_prompt q recalled), EmbedQuery query, RpcMatchDocuments v 5,
        LlmInvoke (qa_prompt ctx recalled q),
        EmbedQuery q,
        TableInsert \<lparr>entry_conversation_id = sid, entry_message_type = ''human'', entry_content = q, entry_embedding = vq\<rparr>,
        EmbedQuery ans,
        TableInsert \<lparr>entry_conversation_id = sid, entry_message_type = ''ai'', entry_content = ans, entry_embedding = va\<rparr>,
        EmbedQuery q, RpcMatchDocuments vq 5]"
    by (simp add: w' w6 w5 w4 w3 w2 w1)
  have a: "answer resp = ans" and c: "conversation_id resp = cid"
    and s: "map JStr (sources resp) = srcs"
    by (simp_all add: resp comp_def map_JStr_text_of [OF strs])
  show thesis
    using e1 h1 r1 l1 e2 d1 j1 l2 e4 d2 srcs hist log
    unfolding sid_def q_def
    by (intro that [of vq data recalled query v docs ctx va docs2]) (simp_all add: a c s cid_def)
qed

lemma uuid4_version_bit: "bit (uuid4 r) 78"
  by (simp add: uuid4_def bit_or_iff bit_and_iff bit_not_iff bit_push_bit_iff)

lemma uuid4_not_nil: "uuid4 r \<noteq> 0"
proof
  assume "uuid4 r = 0"
  with uuid4_version_bit [of r] show False by simp
qed

lemma for_each_Inr: "for_each f xs = Inr ys \<longleftrightarrow> list_all2 (\<lambda>x y. f x = Inr y) xs ys"
proof
  show "for_each f xs = Inr ys \<Longrightarrow> list_all2 (\<lambda>x y. f x = Inr y) xs ys"
    by (induction xs arbitrary: ys) (auto split: sum.splits)
  show "list_all2 (\<lambda>x y. f x = Inr y) xs ys \<Longrightarrow> for_each f xs = Inr ys"
    by (induction rule: list_all2_induct) simp_all
qed

lemma row_source_text:
  "row_source (JStr d) doc = Inr (JStr s) \<longleftrightarrow> has_text_source doc \<and> source_text d doc = s"
  by (auto simp: row_source_def py_get_def dict_get_def has_text_source_def source_text_def is_str_iff
      split: option.splits json.splits)

lemma row_sources_text:
  assumes "list_all2 (\<lambda>doc y. row_source (JStr d) doc = Inr y) rows ys" and "list_all is_str ys"
  shows "list_all has_text_source rows \<and> ys = map (\<lambda>doc. JStr (source_text d doc)) rows"
  using assms by (induction rule: list_all2_induct) (auto simp: is_str_iff row_source_text)

lemma remdups_map_JStr: "remdups (map JStr xs) = map JStr (remdups xs)"
  by (induction xs) auto

lemma remdups_map_JStr_comp:
  "remdups (map (\<lambda>x. JStr (f x)) xs) = map JStr (remdups (map f xs))"
  using remdups_map_JStr [of "map f xs"] by (simp add: comp_def)

lemma response_sources_total:
  assumes "list_all has_text_source (data_rows data)"
  shows "response_sources data =
           Inr (map JStr (remdups (map (source_text ''Unknown'') (data_rows data))))"
proof (cases "truthy data")
  case True
  then obtain rows where d: "data = Some rows" by (auto simp: truthy_def split: option.splits)
  with assms have ok: "list_all has_text_source rows" by (simp add: data_rows_def)
  then have "list_all2 (\<lambda>doc y. row_source (JStr ''Unknown'') doc = Inr y) rows
               (map (\<lambda>doc. JStr (source_text ''Unknown'' doc)) rows)"
    by (simp add: list_all2_map2 list_all2_same list_all_iff row_source_text)
  then have each: "for_each (row_source (JStr ''Unknown'')) rows =
               Inr (map JStr (map (source_text ''Unknown'') rows))"
    by (simp add: for_each_Inr comp_def)
  have "list_all hashable (map JStr (map (source_text ''Unknown'') rows))"
    by (simp add: list_all_iff)
  with True d each show ?thesis
    by (simp add: response_sources_def list_of_set_def data_rows_def remdups_map_JStr_comp comp_def)
next
  case False
  then have "data_rows data = []"
    by (auto simp: truthy_def data_rows_def split: option.splits)
  with False show ?thesis by (simp add: response_sources_def)
qed

lemma response_sources_Inr:
  assumes "response_sources data = Inr (map JStr xs)"
  shows "distinct xs \<and> list_all has_text_source (data_rows data) \<and>
         set xs = source_text ''Unknown'' ` set (data_rows data)"
proof (cases "truthy data")
  case True
  then obtain rows where d: "data = Some rows" by (auto simp: truthy_def split: option.splits)
  with assms True obtain ys where
    ys: "for_each (row_source (JStr ''Unknown'')) rows = Inr ys" and
    xs: "list_of_set ys = Inr (map JStr xs)"
    by (auto simp: response_sources_def split: sum.splits)
  from xs have r: "remdups ys = map JStr xs"
    by (auto simp: list_of_set_def split: if_splits)
  then have "set ys = JStr ` set xs" by (metis set_remdups set_map)
  then have strs: "list_all is_str ys" by (auto simp: list_all_iff)
  from ys have "list_all2 (\<lambda>doc y. row_source (JStr ''Unknown'') doc = Inr y) rows ys"
    by (simp add: for_each_Inr)
  from row_sources_text [OF this strs] have
    ok: "list_all has_text_source rows" and
    eq: "ys = map JStr (map (source_text ''Unknown'') rows)"
    by (simp_all add: comp_def)
  from r have "distinct (map JStr xs)" by (metis distinct_remdups)
  then have dist: "distinct xs" by (simp add: distinct_map)
  have "map JStr xs = remdups (map JStr (map (source_text ''Unknown'') rows))"
    by (simp only: r [symmetric] eq)
  then have "map JStr xs = map JStr (remdups (map (source_text ''Unknown'') rows))"
    by (simp only: remdups_map_JStr)
  then have "xs = remdups (map (source_text ''Unknown'') rows)"
    by (simp add: inj_on_def)
  then have "set xs = source_text ''Unknown'' ` set rows" by simp
  with dist ok d show ?thesis by (simp add: data_rows_def)
next
  case False
  with assms have "xs = []" by (simp add: response_sources_def)
  moreover from False have "data_rows data = []"
    by (auto simp: truthy_def data_rows_def split: option.splits)
  ultimately show ?thesis by simp
qed



lemma recall_rows_filter:
  assumes "\<forall>r \<in> set rows. row_message_type r \<noteq> None"
    and "\<forall>r \<in> set rows. row_message_type r \<in> {Some ''human'', Some ''ai''} \<longrightarrow> row_content r \<noteq> None"
  shows "recall_rows rows acc =
     Inr (acc @ map (\<lambda>r. if row_message_type r = Some ''human'' then HumanMessage (the (row_content r))
                          else AIMessage (the (row_content r)))
                    (filter (\<lambda>r. row_message_type r \<in> {Some ''human'', Some ''ai''}) rows))"
  using assms
proof (induction rows arbitrary: acc)
  case Nil
  show ?case by simp
next
  case (Cons r rows)
  from Cons.prems obtain t where t: "row_message_type r = Some t" by auto
  from Cons.prems have rest:
    "\<forall>r \<in> set rows. row_message_type r \<noteq> None"
    "\<forall>r \<in> set rows. row_message_type r \<in> {Some ''human'', Some ''ai''} \<longrightarrow> row_content r \<noteq> None"
    by simp_all
  note IH = Cons.IH [OF rest]
  show ?case
  proof (cases "t = ''human'' \<or> t = ''ai''")
    case True
    with t Cons.prems obtain c where c: "row_content r = Some c" by auto
    from True t c show ?thesis by (auto simp: IH)
  next
    case False
    with t show ?thesis by (simp add: IH)
  qed
qed

lemma row_basename_Inr:
  "row_basename doc = Inr b \<longleftrightarrow> has_text_source doc \<and> b = basename (source_text [] doc)"
  by (auto simp: row_basename_def row_source_def py_get_def py_basename_def dict_get_def
      has_text_source_def source_text_def is_str_iff split: option.splits json.splits)

lemma row_basenames:
  assumes "list_all2 (\<lambda>doc b. row_basename doc = Inr b) rows xs"
  shows "list_all has_text_source rows \<and> xs = map (\<lambda>doc. basename (source_text [] doc)) rows"
  using assms by (induction rule: list_all2_induct) (auto simp: row_basename_Inr)

lemma eval_retrieved_sources_Inr:
  assumes "eval_retrieved_sources data = Inr xs"
  shows "list_all has_text_source (data_rows data) \<and>
         xs = map (\<lambda>doc. basename (source_text [] doc)) (data_rows data)"
proof (cases "truthy data")
  case True
  then obtain rows where d: "data = Some rows" by (auto simp: truthy_def split: option.splits)
  with assms True have "list_all2 (\<lambda>doc b. row_basename doc = Inr b) rows xs"
    by (simp add: eval_retrieved_sources_def for_each_Inr)
  from row_basenames [OF this] d show ?thesis
    by (simp add: data_rows_def)
next
  case False
  with assms have "xs = []" by (simp add: eval_retrieved_sources_def)
  moreover from False have "data_rows data = []"
    by (auto simp: truthy_def data_rows_def split: option.splits)
  ultimately show ?thesis by simp
qed

lemma eval_loop_Inr:
  assumes "eval_loop P k i qs acc w = (Inr rs, w')"
  shows "\<exists>new. rs = acc @ new \<and>
     list_all2 (\<lambda>qd r.
        (\<exists>v data. embed_query P (eq_question qd) = Inr v \<and> rpc_match_documents P v 5 = Inr data \<and>
           list_all has_text_source (data_rows data) \<and>
           retrieved_sources r = map (\<lambda>doc. basename (source_text [] doc)) (data_rows data)) \<and>
        precision_at_k r =
          (if k > 0 then of_nat (num_relevant (retrieved_sources r) (eq_expected_sources qd)) / of_nat k
           else 0)) qs new"
  using assms
proof (induction qs arbitrary: i acc w)
  case Nil
  then show ?case by (simp add: ret_Inr)
next
  case (Cons qd qs)
  let ?p = "\<lambda>retrieved. (if k > 0 then of_nat (num_relevant retrieved (eq_expected_sources qd)) / of_nat k
           else (0 :: rat))"
  let ?r = "\<lambda>retrieved. \<lparr>query_id = i + 1, res_question = eq_question qd,
               expected_sources = eq_expected_sources qd,
               retrieved_sources = retrieved, precision_at_k = ?p retrieved\<rparr>"
  from Cons.prems obtain data w1 retrieved where
    g: "get_retrieved_documents P (eq_question qd) w = (Inr data, w1)" and
    s: "eval_retrieved_sources data = Inr retrieved" and
    rest: "eval_loop P k (i + 1) qs (acc @ [?r retrieved]) w1 = (Inr rs, w')"
    by (auto simp: then_do_Inr lift_Inr Let_def)
  from g obtain v where v: "embed_query P (eq_question qd) = Inr v" "rpc_match_documents P v 5 = Inr data"
    unfolding get_retrieved_documents_Inr by blast
  from Cons.IH [OF rest] obtain new where
    new: "rs = (acc @ [?r retrieved]) @ new" and
    all: "list_all2 (\<lambda>qd r.
        (\<exists>v data. embed_query P (eq_question qd) = Inr v \<and> rpc_match_documents P v 5 = Inr data \<and>
           list_all has_text_source (data_rows data) \<and>
           retrieved_sources r = map (\<lambda>doc. basename (source_text [] doc)) (data_rows data)) \<and>
        precision_at_k r =
          (if k > 0 then of_nat (num_relevant (retrieved_sources r) (eq_expected_sources qd)) / of_nat k
           else 0)) qs new"
    by blast
  have head: "\<exists>v data. embed_query P (eq_question qd) = Inr v \<and> rpc_match_documents P v 5 = Inr data \<and>
           list_all has_text_source (data_rows data) \<and>
           retrieved_sources (?r retrieved) = map (\<lambda>doc. basename (source_text [] doc)) (data_rows data)"
    using v eval_retrieved_sources_Inr [OF s] by auto
  have "rs = acc @ (?r retrieved # new)" using new by simp
  moreover have "list_all2 (\<lambda>qd r.
        (\<exists>v data. embed_query P (eq_question qd) = Inr v \<and> rpc_match_documents P v 5 = Inr data \<and>
           list_all has_text_source (data_rows data) \<and>
           retrieved_sources r = map (\<lambda>doc. basename (source_text [] doc)) (data_rows data)) \<and>
        precision_at_k r =
          (if k > 0 then of_nat (num_relevant (retrieved_sources r) (eq_expected_sources qd)) / of_nat k
           else 0)) (qd # qs) (?r retrieved # new)"
    using head all by simp
  ultimately show ?case by blast
qed

lemma length_eval_queries: "length eval_queries = 10"
  by (simp add: eval_queries_def)

lemma num_relevant_distinct:
  "distinct retrieved \<Longrightarrow> num_relevant retrieved expected = card (set retrieved \<inter> set expected)"
  by (simp add: num_relevant_def distinct_length_filter Int_commute)

text \<open>What the sources computation does with a row that has no text source to offer.\<close>

lemma response_sources_without_metadata:
  "response_sources (Some [\<lparr>doc_content = c, doc_metadata = None\<rparr>]) = Inl (KeyError ''metadata'')"
  by (simp add: response_sources_def truthy_def row_source_def)

lemma response_sources_null_metadata:
  "response_sources (Some [\<lparr>doc_content = c, doc_metadata = Some JNull\<rparr>]) = Inl AttributeError"
  by (simp add: response_sources_def truthy_def row_source_def py_get_def)

lemma response_sources_list_source:
  "response_sources (Some [\<lparr>doc_content = c, doc_metadata = Some (JObj [(''source'', JArr xs)])\<rparr>]) =
     Inl TypeError"
  by (simp add: response_sources_def truthy_def row_source_def py_get_def dict_get_def list_of_set_def)

lemma make_QueryResponse_number_source:
  "make_QueryResponse a [JNum n] c = Inl ValidationError"
  by (simp add: make_QueryResponse_def)

section \<open>The test doubles, run\<close>

lemma str_uuid_mock: "str_uuid (uuid4 0) = ''00000000-0000-4000-8000-000000000000''"
  by code_simp

lemma mock_run: "fst (query_rag_endpoint mock_ports mock_request empty_world) = Inr mock_response"
  by (simp add: query_rag_endpoint_def resolve_conversation_id_def mock_ports_def mock_request_def
      empty_world_def mock_response_def prog_defs get_relevant_history_def rag_chain_def
      add_message_to_history_def get_retrieved_documents_def history_aware_rephraser_def truthy_def
      mock_history_def mock_documents_def join_contents_def response_sources_def list_of_set_def
      row_source_def py_get_def dict_get_def make_QueryResponse_def Let_def)

lemma mock_run_pair:
  "query_rag_endpoint mock_ports mock_request empty_world =
     (Inr mock_response, snd (query_rag_endpoint mock_ports mock_request empty_world))"
  using mock_run by (simp add: prod_eq_iff)


lemma echo_chain_run:
  "fst (rag_chain echo_ports ''What is Supabase?'' [] empty_world) = Inr ''What is Supabase?''"
  by (simp add: rag_chain_def echo_ports_def mock_ports_def empty_world_def prog_defs
      get_retrieved_documents_def history_aware_rephraser_def join_contents_def echo_llm_def
      contextualize_q_prompt_def qa_prompt_def)

lemma dup_eval_run: "fst (evaluate_rag dup_ports empty_world) = Inr dup_report"
  by (simp add: evaluate_rag_def eval_queries_def dup_ports_def mock_ports_def empty_world_def prog_defs
      get_retrieved_documents_def eval_retrieved_sources_def truthy_def dup_documents_def
      edge_documents_def row_basename_def row_source_def py_get_def py_basename_def dict_get_def
      basename_def num_relevant_def overall_precision_def
      dup_report_def dup_result_def Let_def)

section \<open>The request path\<close>

text \<open>
  C3: after a successful request the \<open>chat_history\<close> table holds exactly two more rows,
  both under the request's conversation id: a \<open>human\<close> row with the original question and
  an \<open>ai\<close> row with the returned answer. Each row carries the embedding that a call of
  the embedding model, made for that row right before its insert, returned.
\<close>

theorem persist_turn:
  assumes "query_rag_endpoint P request w = (Inr resp, w')"
  shows "\<exists>vq va.
     embed_query P (question request) = Inr vq \<and> embed_query P (answer resp) = Inr va \<and>
     chat_history w' = chat_history w @
       [\<lparr>entry_conversation_id = str_uuid (conversation_id resp), entry_message_type = ''human'',
         entry_content = question request, entry_embedding = vq\<rparr>,
        \<lparr>entry_conversation_id = str_uuid (conversation_id resp), entry_message_type = ''ai'',
         entry_content = answer resp, entry_embedding = va\<rparr>] \<and>
     take 4 (drop (length (calls w) + 6) (calls w')) =
       [EmbedQuery (question request),
        TableInsert \<lparr>entry_conversation_id = str_uuid (conversation_id resp), entry_message_type = ''human'',
         entry_content = question request, entry_embedding = vq\<rparr>,
        EmbedQuery (answer resp),
        TableInsert \<lparr>entry_conversation_id = str_uuid (conversation_id resp), entry_message_type = ''ai'',
         entry_content = answer resp, entry_embedding = va\<rparr>]"
  using assms by (rule query_rag_endpoint_success) simp

theorem persist_turn_witness:
  "chat_history (snd (query_rag_endpoint mock_ports mock_request empty_world)) =
     [\<lparr>entry_conversation_id = ''00000000-0000-4000-8000-000000000000'', entry_message_type = ''human'',
       entry_content = ''What is Supabase?'', entry_embedding = ''What is Supabase?''\<rparr>,
      \<lparr>entry_conversation_id = ''00000000-0000-4000-8000-000000000000'', entry_message_type = ''ai'',
       entry_content = ''It is a backend platform.'', entry_embedding = ''It is a backend platform.''\<rparr>]"
  using persist_turn [OF mock_run_pair]
  by (auto simp: mock_ports_def mock_request_def mock_response_def empty_world_def str_uuid_mock)

text \<open>
  C5: a request that returns carries a conversation id: the one supplied, or else the
  version-4 UUID made from fresh random bytes, which is never the nil UUID. The History
  Store is called three times (the recall and the two inserts), each time with the
  string form of that same id, which is the id of the response.
\<close>

theorem conversation_id_resolved:
  assumes "query_rag_endpoint P request w = (Inr resp, w')"
  shows "conversation_id resp =
           (case req_conversation_id request of Some c \<Rightarrow> c | None \<Rightarrow> uuid4 (urandom16 P)) \<and>
         (req_conversation_id request = None \<longrightarrow> conversation_id resp \<noteq> 0) \<and>
         history_store_ids (drop (length (calls w)) (calls w')) =
           replicate 3 (str_uuid (conversation_id resp))"
  using assms
  by (rule query_rag_endpoint_success)
     (auto simp: resolve_conversation_id_def uuid4_not_nil numeral_3_eq_3)

theorem conversation_id_resolved_witness:
  "conversation_id mock_response = uuid4 0 \<and> uuid4 0 \<noteq> (0 :: uuid) \<and>
   history_store_ids (calls (snd (query_rag_endpoint mock_ports mock_request empty_world))) =
     [''00000000-0000-4000-8000-000000000000'', ''00000000-0000-4000-8000-000000000000'',
      ''00000000-0000-4000-8000-000000000000'']"
  using conversation_id_resolved [OF mock_run_pair]
  by (simp add: mock_ports_def mock_request_def mock_response_def empty_world_def str_uuid_mock
      numeral_3_eq_3)

text \<open>
  C10: when the embedding and the History Store call succeed and every returned row has a
  message type, and a content where the type is \<open>human\<close> or \<open>ai\<close>, the recall returns:
  its messages are the rows of type \<open>human\<close> or \<open>ai\<close>, in the returned order, as human
  and AI messages. Rows of any other type are left out, whatever else they hold.
\<close>

theorem recall_skips_unrecognized:
  assumes "embed_query P q = Inr v"
    and "rpc_match_chat_history P (chat_history w) v sid 4 = Inr data"
    and "\<forall>r \<in> set (data_rows data). row_message_type r \<noteq> None"
    and "\<forall>r \<in> set (data_rows data).
           row_message_type r \<in> {Some ''human'', Some ''ai''} \<longrightarrow> row_content r \<noteq> None"
  shows "fst (get_relevant_history P sid q w) =
     Inr (map (\<lambda>r. if row_message_type r = Some ''human'' then HumanMessage (the (row_content r))
                    else AIMessage (the (row_content r)))
              (filter (\<lambda>r. row_message_type r \<in> {Some ''human'', Some ''ai''}) (data_rows data)))"
proof (cases "truthy data")
  case True
  then have rows: "the data = data_rows data"
    by (auto simp: truthy_def data_rows_def split: option.splits)
  from recall_rows_filter [OF assms(3,4), of "[]"] assms(1,2) True show ?thesis
    by (simp add: get_relevant_history_def then_do_def call_embed_def call_match_chat_history_def
        logged_def lift_def rows)
next
  case False
  then have "data_rows data = []"
    by (auto simp: truthy_def data_rows_def split: option.splits)
  with assms(1,2) False show ?thesis
    by (simp add: get_relevant_history_def then_do_def call_embed_def call_match_chat_history_def
        logged_def lift_def)
qed

theorem recall_skips_unrecognized_witness:
  "row_message_type (mock_history ! 1) = Some ''system'' \<and>
   fst (get_relevant_history mock_ports ''00000000-0000-4000-8000-000000000000'' ''What was my last question?''
          empty_world) =
     Inr [HumanMessage ''This was my previous question.'', AIMessage ''This was the AI answer.'']"
proof -
  have e: "embed_query mock_ports ''What was my last question?'' = Inr ''What was my last question?''"
    by (simp add: mock_ports_def)
  have h: "rpc_match_chat_history mock_ports (chat_history empty_world) ''What was my last question?''
             ''00000000-0000-4000-8000-000000000000'' 4 = Inr (Some mock_history)"
    by (simp add: mock_ports_def)
  have t: "\<forall>r \<in> set (data_rows (Some mock_history)). row_message_type r \<noteq> None"
    by (simp add: data_rows_def mock_history_def)
  have c: "\<forall>r \<in> set (data_rows (Some mock_history)).
      row_message_type r \<in> {Some ''human'', Some ''ai''} \<longrightarrow> row_content r \<noteq> None"
    by (simp add: data_rows_def mock_history_def)
  from recall_skips_unrecognized [OF e h t c] show ?thesis
    by (simp add: data_rows_def mock_history_def)
qed

text \<open>
  C2, as stated: with an empty recalled history the question that reaches document
  retrieval is the original one. It is not: the question goes to the LLM all the same, and
  the text that the LLM returns is what is embedded and retrieved for. Here the LLM
  answers the question instead of repeating it.
\<close>

theorem empty_history_passthrough_counterexample:
  "fst (history_aware_rephraser mock_ports ''What is Supabase?'' [] empty_world) =
     Inr ''It is a backend platform.'' \<and>
   take 2 (calls (snd (rag_chain mock_ports ''What is Supabase?'' [] empty_world))) =
     [LlmInvoke [SystemMessage contextualize_q_system_prompt, HumanMessage ''What is Supabase?''],
      EmbedQuery ''It is a backend platform.''] \<and>
   ''It is a backend platform.'' \<noteq> ''What is Supabase?''"
  by (simp add: rag_chain_def mock_ports_def empty_world_def prog_defs get_retrieved_documents_def
      history_aware_rephraser_def join_contents_def contextualize_q_prompt_def)

text \<open>
  C2, amended: with an empty recalled history the LLM is called with the system
  instruction and the question alone, and the text it returns is the question passed to
  document retrieval; that is the original question exactly when the LLM returns the
  question unchanged.
\<close>

theorem empty_history_rephrasing:
  assumes "rag_chain P q [] w = (Inr a, w')"
  shows "\<exists>query v.
     llm P [SystemMessage contextualize_q_system_prompt, HumanMessage q] = Inr query \<and>
     embed_query P query = Inr v \<and>
     take 3 (drop (length (calls w)) (calls w')) =
       [LlmInvoke [SystemMessage contextualize_q_system_prompt, HumanMessage q],
        EmbedQuery query, RpcMatchDocuments v 5] \<and>
     (query = q \<longleftrightarrow> llm P [SystemMessage contextualize_q_system_prompt, HumanMessage q] = Inr q)"
proof -
  from assms obtain query v docs ctx where
    l1: "llm P (contextualize_q_prompt q []) = Inr query" and
    e: "embed_query P query = Inr v" and
    d: "rpc_match_documents P v 5 = Inr docs" and
    log: "w' = w\<lparr>calls := calls w @ [LlmInvoke (contextualize_q_prompt q []), EmbedQuery query,
                 RpcMatchDocuments v 5, LlmInvoke (qa_prompt ctx [] q)]\<rparr>"
    unfolding rag_chain_Inr by blast
  have p: "contextualize_q_prompt q [] = [SystemMessage contextualize_q_system_prompt, HumanMessage q]"
    by (simp add: contextualize_q_prompt_def)
  from l1 e log show ?thesis
    unfolding p by (intro exI [of _ query] exI [of _ v]) auto
qed

theorem empty_history_rephrasing_witness:
  "take 3 (calls (snd (rag_chain echo_ports ''What is Supabase?'' [] empty_world))) =
     [LlmInvoke [SystemMessage contextualize_q_system_prompt, HumanMessage ''What is Supabase?''],
      EmbedQuery ''What is Supabase?'', RpcMatchDocuments ''What is Supabase?'' 5]"
proof -
  have run: "rag_chain echo_ports ''What is Supabase?'' [] empty_world =
      (Inr ''What is Supabase?'', snd (rag_chain echo_ports ''What is Supabase?'' [] empty_world))"
    using echo_chain_run by (simp add: prod_eq_iff)
  from empty_history_rephrasing [OF run] obtain query v where
    l: "llm echo_ports [SystemMessage contextualize_q_system_prompt, HumanMessage ''What is Supabase?''] = Inr query" and
    e: "embed_query echo_ports query = Inr v" and
    log: "take 3 (drop (length (calls empty_world)) (calls (snd (rag_chain echo_ports ''What is Supabase?'' [] empty_world)))) =
       [LlmInvoke [SystemMessage contextualize_q_system_prompt, HumanMessage ''What is Supabase?''],
        EmbedQuery query, RpcMatchDocuments v 5]"
    by blast
  from l have query: "query = ''What is Supabase?''"
    by (simp add: echo_ports_def echo_llm_def)
  from e have v: "v = query" by (simp add: echo_ports_def mock_ports_def)
  have n: "length (calls empty_world) = 0" by (simp add: empty_world_def)
  from log show ?thesis unfolding v query n by simp
qed



text \<open>
  C8: the sources of a response come from a retrieval of their own, the last two calls of
  the request: the original question is embedded and the five best chunks are asked for.
  The context of the answer came from an earlier retrieval, made with the LLM's
  reformulation. Every row of the last retrieval has a dict for metadata, with a text or
  nothing under \<open>source\<close>, and the sources are the \<open>source\<close> values of these rows
  (\<open>Unknown\<close> where a row has none), each value once.
\<close>

theorem sources_from_original_question:
  assumes "query_rag_endpoint P request w = (Inr resp, w')"
  shows "\<exists>vq docs2 recalled query v.
     embed_query P (question request) = Inr vq \<and> rpc_match_documents P vq 5 = Inr docs2 \<and>
     drop (length (calls w) + 10) (calls w') = [EmbedQuery (question request), RpcMatchDocuments vq 5] \<and>
     llm P (contextualize_q_prompt (question request) recalled) = Inr query \<and>
     embed_query P query = Inr v \<and>
     take 2 (drop (length (calls w) + 3) (calls w')) = [EmbedQuery query, RpcMatchDocuments v 5] \<and>
     distinct (sources resp) \<and>
     list_all has_text_source (data_rows docs2) \<and>
     set (sources resp) = source_text ''Unknown'' ` set (data_rows docs2)"
  using assms
proof (rule query_rag_endpoint_success)
  fix vq data recalled query v docs ctx va docs2
  assume e: "embed_query P (question request) = Inr vq"
    and d: "rpc_match_documents P vq 5 = Inr docs2"
    and l: "llm P (contextualize_q_prompt (question request) recalled) = Inr query"
    and e2: "embed_query P query = Inr v"
    and rs: "response_sources docs2 = Inr (map JStr (sources resp))"
    and log: "calls w' = calls w @
       [EmbedQuery (question request),
        RpcMatchChatHistory vq (str_uuid (conversation_id resp)) 4,
        LlmInvoke (contextualize_q_prompt (question request) recalled),
        EmbedQuery query,
        RpcMatchDocuments v 5,
        LlmInvoke (qa_prompt ctx recalled (question request)),
        EmbedQuery (question request),
        TableInsert \<lparr>entry_conversation_id = str_uuid (conversation_id resp), entry_message_type = ''human'',
         entry_content = question request, entry_embedding = vq\<rparr>,
        EmbedQuery (answer resp),
        TableInsert \<lparr>entry_conversation_id = str_uuid (conversation_id resp), entry_message_type = ''ai'',
         entry_content = answer resp, entry_embedding = va\<rparr>,
        EmbedQuery (question request),
        RpcMatchDocuments vq 5]"
  have src: "distinct (sources resp) \<and>
     list_all has_text_source (data_rows docs2) \<and>
     set (sources resp) = source_text ''Unknown'' ` set (data_rows docs2)"
    using rs by (rule response_sources_Inr)
  have last2: "drop (length (calls w) + 10) (calls w') =
      [EmbedQuery (question request), RpcMatchDocuments vq 5]"
    by (simp add: log)
  have mid2: "take 2 (drop (length (calls w) + 3) (calls w')) = [EmbedQuery query, RpcMatchDocuments v 5]"
    by (simp add: log)
  from e d l e2 src last2 mid2 show ?thesis by blast
qed

theorem sources_from_original_question_witness:
  "drop 10 (calls (snd (query_rag_endpoint mock_ports mock_request empty_world))) =
     [EmbedQuery ''What is Supabase?'', RpcMatchDocuments ''What is Supabase?'' 5] \<and>
   take 2 (drop 3 (calls (snd (query_rag_endpoint mock_ports mock_request empty_world)))) =
     [EmbedQuery ''It is a backend platform.'', RpcMatchDocuments ''It is a backend platform.'' 5] \<and>
   distinct (sources mock_response)"
proof -
  from sources_from_original_question [OF mock_run_pair]
  obtain vq docs2 recalled query v where
    e: "embed_query mock_ports (question mock_request) = Inr vq" and
    d: "rpc_match_documents mock_ports vq 5 = Inr docs2" and
    last2: "drop (length (calls empty_world) + 10) (calls (snd (query_rag_endpoint mock_ports mock_request empty_world))) =
       [EmbedQuery (question mock_request), RpcMatchDocuments vq 5]" and
    l: "llm mock_ports (contextualize_q_prompt (question mock_request) recalled) = Inr query" and
    e2: "embed_query mock_ports query = Inr v" and
    mid2: "take 2 (drop (length (calls empty_world) + 3) (calls (snd (query_rag_endpoint mock_ports mock_request empty_world)))) =
       [EmbedQuery query, RpcMatchDocuments v 5]" and
    dist: "distinct (sources mock_response)"
    by blast
  from e have vq: "vq = ''What is Supabase?''" by (simp add: mock_ports_def mock_request_def)
  from l have query: "query = ''It is a backend platform.''" by (simp add: mock_ports_def)
  from e2 have v: "v = query" by (simp add: mock_ports_def)
  have q: "question mock_request = ''What is Supabase?''" by (simp add: mock_request_def)
  have n: "length (calls empty_world) = 0" by (simp add: empty_world_def)
  from last2 mid2 dist show ?thesis
    unfolding vq v query q n by simp
qed

text \<open>
  C4, as stated: a returned row without a source field never makes the request fail. It
  does when the row has no metadata at all: the subscript \<open>doc["metadata"]\<close> raises
  KeyError, after the question and the answer have been written to the history.
\<close>

theorem missing_metadata_counterexample:
  "doc_metadata (bare_documents ! 0) = None \<and>
   fst (query_rag_endpoint bare_ports mock_request empty_world) = Inl (KeyError ''metadata'') \<and>
   map entry_message_type (chat_history (snd (query_rag_endpoint bare_ports mock_request empty_world))) =
     [''human'', ''ai'']"
  by (simp add: query_rag_endpoint_def resolve_conversation_id_def bare_ports_def mock_ports_def
      mock_request_def empty_world_def prog_defs get_relevant_history_def rag_chain_def
      add_message_to_history_def get_retrieved_documents_def history_aware_rephraser_def truthy_def
      mock_history_def bare_documents_def join_contents_def response_sources_def row_source_def
      Let_def)

text \<open>
  C4, amended: when the steps before the sources derivation have returned and every row
  of the sources retrieval has a dict for metadata, with a text or nothing under
  \<open>source\<close>, the request returns; its sources are the \<open>source\<close> values of the rows, and a
  row whose metadata has no \<open>source\<close> key contributes \<open>Unknown\<close>.
\<close>

theorem missing_source_defaults:
  assumes "get_relevant_history P (str_uuid (resolve_conversation_id P request)) (question request) w =
             (Inr recalled, w1)"
    and "rag_chain P (question request) recalled w1 = (Inr ans, w2)"
    and "add_message_to_history P (str_uuid (resolve_conversation_id P request)) ''human''
           (question request) w2 = (Inr (), w3)"
    and "add_message_to_history P (str_uuid (resolve_conversation_id P request)) ''ai'' ans w3 =
           (Inr (), w4)"
    and "get_retrieved_documents P (question request) w4 = (Inr docs, w5)"
    and "\<forall>doc \<in> set (data_rows docs). has_text_source doc"
  shows "\<exists>resp. query_rag_endpoint P request w = (Inr resp, w5) \<and> answer resp = ans \<and>
           set (sources resp) = source_text ''Unknown'' ` set (data_rows docs) \<and>
           (\<forall>doc \<in> set (data_rows docs). \<forall>d. doc_metadata doc = Some (JObj d) \<longrightarrow>
              map_of d ''source'' = None \<longrightarrow> ''Unknown'' \<in> set (sources resp))"
proof -
  let ?srcs = "remdups (map (source_text ''Unknown'') (data_rows docs))"
  let ?resp = "\<lparr>answer = ans, sources = ?srcs, conversation_id = resolve_conversation_id P request\<rparr>"
  from assms(6) have "list_all has_text_source (data_rows docs)"
    by (simp add: list_all_iff)
  then have rs: "response_sources docs = Inr (map JStr ?srcs)"
    by (rule response_sources_total)
  have made: "make_QueryResponse ans (map JStr ?srcs) (resolve_conversation_id P request) = Inr ?resp"
    by (simp add: make_QueryResponse_def list_all_iff comp_def)
  have run: "query_rag_endpoint P request w = (Inr ?resp, w5)"
    by (simp add: query_rag_endpoint_def Let_def then_do_def lift_def assms(1-5) rs made)
  have srcs: "set (sources ?resp) = source_text ''Unknown'' ` set (data_rows docs)"
    by simp
  have dflt: "''Unknown'' \<in> set (sources ?resp)"
    if "doc \<in> set (data_rows docs)" and "doc_metadata doc = Some (JObj d)"
      and "map_of d ''source'' = None" for doc d
  proof -
    from that(2,3) have "''Unknown'' = source_text ''Unknown'' doc"
      by (simp add: source_text_def)
    then have "''Unknown'' \<in> source_text ''Unknown'' ` set (data_rows docs)"
      using that(1) by (rule image_eqI)
    then show ?thesis by (simp only: srcs)
  qed
  show ?thesis
  proof (intro exI conjI ballI allI impI)
    show "query_rag_endpoint P request w = (Inr ?resp, w5)" by (rule run)
    show "answer ?resp = ans" by simp
    show "set (sources ?resp) = source_text ''Unknown'' ` set (data_rows docs)" by (rule srcs)
    show "''Unknown'' \<in> set (sources ?resp)"
      if "doc \<in> set (data_rows docs)" and "doc_metadata doc = Some (JObj d)"
        and "map_of d ''source'' = None" for doc d
      using that by (rule dflt)
  qed
qed

theorem missing_source_defaults_witness:
  "doc_metadata (mock_documents ! 1) = Some (JObj [(''page'', JNum 3)]) \<and>
   ''Unknown'' \<in> set (sources mock_response) \<and>
   fst (query_rag_endpoint mock_ports mock_request empty_world) = Inr mock_response"
proof -
  define sid where "sid = str_uuid (resolve_conversation_id mock_ports mock_request)"
  from mock_run_pair obtain recalled w1 ans w2 u3 w3 u4 w4 docs w5 where
    s1: "get_relevant_history mock_ports sid (question mock_request) empty_world = (Inr recalled, w1)" and
    s2: "rag_chain mock_ports (question mock_request) recalled w1 = (Inr ans, w2)" and
    s3: "add_message_to_history mock_ports sid ''human'' (question mock_request) w2 = (Inr u3, w3)" and
    s4: "add_message_to_history mock_ports sid ''ai'' ans w3 = (Inr u4, w4)" and
    s5: "get_retrieved_documents mock_ports (question mock_request) w4 = (Inr docs, w5)"
    unfolding query_rag_endpoint_def Let_def then_do_Inr sid_def by blast
  from s5 have docs: "docs = Some mock_documents"
    by (auto simp: get_retrieved_documents_Inr mock_ports_def)
  have rows: "\<forall>doc \<in> set (data_rows docs). has_text_source doc"
    by (simp add: docs data_rows_def mock_documents_def has_text_source_def)
  have second: "mock_documents ! 1 \<in> set (data_rows docs)"
    and md: "doc_metadata (mock_documents ! 1) = Some (JObj [(''page'', JNum 3)])"
    and none: "map_of [(''page'', JNum 3)] ''source'' = None"
    by (simp_all add: docs data_rows_def mock_documents_def)
  from s3 have s3': "add_message_to_history mock_ports sid ''human'' (question mock_request) w2 = (Inr (), w3)"
    by simp
  from s4 have s4': "add_message_to_history mock_ports sid ''ai'' ans w3 = (Inr (), w4)"
    by simp
  from missing_source_defaults [OF s1 [unfolded sid_def] s2 s3' [unfolded sid_def] s4' [unfolded sid_def] s5 rows]
  obtain resp where
    run: "query_rag_endpoint mock_ports mock_request empty_world = (Inr resp, w5)" and
    dflt: "\<forall>doc \<in> set (data_rows docs). \<forall>d. doc_metadata doc = Some (JObj d) \<longrightarrow>
              map_of d ''source'' = None \<longrightarrow> ''Unknown'' \<in> set (sources resp)"
    by blast
  from run mock_run have resp: "resp = mock_response" by simp
  from dflt second md none have "''Unknown'' \<in> set (sources resp)" by blast
  with resp md mock_run show ?thesis by simp
qed

text \<open>
  C6: the sources of a response hold no value twice, whatever rows the Document Store
  returned.
\<close>

theorem sources_distinct:
  assumes "query_rag_endpoint P request w = (Inr resp, w')"
  shows "distinct (sources resp)"
  using assms by (rule query_rag_endpoint_success) (blast dest: response_sources_Inr)

theorem sources_distinct_witness:
  "distinct (sources mock_response) \<and>
   source_text ''Unknown'' (mock_documents ! 0) = source_text ''Unknown'' (mock_documents ! 3)"
  using sources_distinct [OF mock_run_pair] by (simp add: mock_documents_def source_text_def)

section \<open>The evaluation harness\<close>

text \<open>
  C1, as stated: the precision of a query is the size of the intersection of the set of
  retrieved basenames with the expected sources, over 3. It is not when two retrieved
  chunks share a source: the second query retrieves two chunks of its one expected PDF
  and is scored 2/3, while the intersection has one element.
\<close>

theorem precision_set_intersection_counterexample:
  "fst (evaluate_rag dup_ports empty_world) = Inr dup_report \<and>
   precision_at_k (query_results dup_report ! 1) = 2 / 3 \<and>
   rat_of_nat (card (set (retrieved_sources (query_results dup_report ! 1)) \<inter>
                    set (expected_sources (query_results dup_report ! 1)))) / 3 = 1 / 3"
  using dup_eval_run by (simp add: dup_report_def dup_result_def)

text \<open>
  C1, amended: in a report that the harness returns there is one result for each query of
  the fixed set. Its retrieved sources are the basenames of the \<open>source\<close> values (the
  empty text where there is none) of the rows that the Document Store returned for the
  question, asked for five; its precision is
  the number of retrieved sources, each occurrence counted, that are among the expected
  ones, over 3, which is the size of the intersection over 3 when no basename was retrieved
  twice. The overall value is the sum of the precisions over the number of queries.
  Python's floats are taken as exact rationals.
\<close>

theorem evaluate_rag_precision:
  assumes "evaluate_rag P w = (Inr report, w')"
  shows "length (query_results report) = length eval_queries \<and>
    (\<forall>j < length eval_queries.
       (\<exists>v data. embed_query P (eq_question (eval_queries ! j)) = Inr v \<and>
          rpc_match_documents P v 5 = Inr data \<and>
          list_all has_text_source (data_rows data) \<and>
          retrieved_sources (query_results report ! j) =
            map (\<lambda>doc. basename (source_text [] doc)) (data_rows data)) \<and>
       precision_at_k (query_results report ! j) =
         of_nat (length (filter (\<lambda>source. source \<in> set (eq_expected_sources (eval_queries ! j)))
                           (retrieved_sources (query_results report ! j)))) / 3 \<and>
       (distinct (retrieved_sources (query_results report ! j)) \<longrightarrow>
          precision_at_k (query_results report ! j) =
            of_nat (card (set (retrieved_sources (query_results report ! j)) \<inter>
                          set (eq_expected_sources (eval_queries ! j)))) / 3)) \<and>
    overall_average_precision_at_k report =
      sum_list (map precision_at_k (query_results report)) / of_nat (length eval_queries)"
proof -
  from assms obtain rs w1 where
    loop: "eval_loop P 3 0 eval_queries [] w = (Inr rs, w1)" and
    rep: "report = \<lparr>total_queries = length eval_queries, k_value = 3,
            overall_average_precision_at_k = overall_precision rs, query_results = rs\<rparr>"
    by (auto simp: evaluate_rag_def then_do_Inr ret_Inr)
  from eval_loop_Inr [OF loop] have all: "list_all2 (\<lambda>qd r.
        (\<exists>v data. embed_query P (eq_question qd) = Inr v \<and> rpc_match_documents P v 5 = Inr data \<and>
           list_all has_text_source (data_rows data) \<and>
           retrieved_sources r = map (\<lambda>doc. basename (source_text [] doc)) (data_rows data)) \<and>
        precision_at_k r =
          (if (3::nat) > 0 then of_nat (num_relevant (retrieved_sources r) (eq_expected_sources qd)) / of_nat 3
           else 0)) eval_queries rs"
    by simp
  then have len: "length rs = length eval_queries"
    by (simp add: list_all2_lengthD)
  have results: "query_results report = rs" by (simp add: rep)
  have each: "(\<exists>v data. embed_query P (eq_question (eval_queries ! j)) = Inr v \<and>
          rpc_match_documents P v 5 = Inr data \<and>
          list_all has_text_source (data_rows data) \<and>
          retrieved_sources (rs ! j) =
            map (\<lambda>doc. basename (source_text [] doc)) (data_rows data)) \<and>
       precision_at_k (rs ! j) =
         of_nat (num_relevant (retrieved_sources (rs ! j)) (eq_expected_sources (eval_queries ! j))) / 3"
    if "j < length eval_queries" for j
    using list_all2_nthD [OF all that] by simp
  have overall: "overall_average_precision_at_k report =
      sum_list (map precision_at_k rs) / of_nat (length eval_queries)"
    using len by (auto simp: rep overall_precision_def)
  show ?thesis
    unfolding results
  proof (intro conjI allI impI)
    show "length rs = length eval_queries" by (rule len)
    show "overall_average_precision_at_k report =
      sum_list (map precision_at_k rs) / of_nat (length eval_queries)" by (rule overall)
  next
    fix j assume j: "j < length eval_queries"
    from each [OF j] show "\<exists>v data. embed_query P (eq_question (eval_queries ! j)) = Inr v \<and>
          rpc_match_documents P v 5 = Inr data \<and>
          list_all has_text_source (data_rows data) \<and>
          retrieved_sources (rs ! j) =
            map (\<lambda>doc. basename (source_text [] doc)) (data_rows data)"
      by blast
    from each [OF j] show "precision_at_k (rs ! j) =
         of_nat (length (filter (\<lambda>source. source \<in> set (eq_expected_sources (eval_queries ! j)))
                           (retrieved_sources (rs ! j)))) / 3"
      by (simp add: num_relevant_def)
    assume "distinct (retrieved_sources (rs ! j))"
    from each [OF j] num_relevant_distinct [OF this]
    show "precision_at_k (rs ! j) =
            of_nat (card (set (retrieved_sources (rs ! j)) \<inter>
                          set (eq_expected_sources (eval_queries ! j)))) / 3"
      by simp
  qed
qed

theorem evaluate_rag_precision_witness:
  "precision_at_k (query_results dup_report ! 1) = 2 / 3 \<and>
   distinct (retrieved_sources (query_results dup_report ! 3)) \<and>
   precision_at_k (query_results dup_report ! 3) = 1 / 3 \<and>
   overall_average_precision_at_k dup_report = 1 / 10"
proof -
  have run: "evaluate_rag dup_ports empty_world = (Inr dup_report, snd (evaluate_rag dup_ports empty_world))"
    using dup_eval_run by (simp add: prod_eq_iff)
  note facts = evaluate_rag_precision [OF run]
  have one: "(1::nat) < length eval_queries" and three: "(3::nat) < length eval_queries"
    by (simp_all add: length_eval_queries)
  from facts one have p1: "precision_at_k (query_results dup_report ! 1) =
         of_nat (length (filter (\<lambda>source. source \<in> set (eq_expected_sources (eval_queries ! 1)))
                           (retrieved_sources (query_results dup_report ! 1)))) / 3"
    by blast
  have d3: "distinct (retrieved_sources (query_results dup_report ! 3))"
    by (simp add: dup_report_def)
  from facts three d3 have p3: "precision_at_k (query_results dup_report ! 3) =
            of_nat (card (set (retrieved_sources (query_results dup_report ! 3)) \<inter>
                          set (eq_expected_sources (eval_queries ! 3)))) / 3"
    by blast
  from facts have ov: "overall_average_precision_at_k dup_report =
      sum_list (map precision_at_k (query_results dup_report)) / of_nat (length eval_queries)"
    by blast
  have "precision_at_k (query_results dup_report ! 1) = 2 / 3"
    unfolding p1 by (simp add: dup_report_def dup_result_def eval_queries_def)
  moreover have "precision_at_k (query_results dup_report ! 3) = 1 / 3"
    unfolding p3 by (simp add: dup_report_def dup_result_def eval_queries_def)
  moreover have "overall_average_precision_at_k dup_report = 1 / 10"
    unfolding ov by (simp add: dup_report_def dup_result_def eval_queries_def)
  ultimately show ?thesis using d3 by simp
qed

end
